theory Spec2Isabelle
  imports Complex_Main
begin

section \<open>Python values used by the program\<close>

text \<open>
  The exceptions the modelled code can raise. A function that may raise returns
  \<open>pyerror + 'a\<close>, with \<open>Inl\<close> for the exception that propagates to the caller.
  \<open>csv_Error\<close> is \<open>csv.Error\<close>.
\<close>

datatype pyerror = KeyError | ValueError | TypeError | UnboundLocalError | OSError | csv_Error

text \<open>
  Strings are lists of characters; a character stands for a code point below 256.
\<close>

definition LF :: char where "LF = CHR 0x0A"
definition CR :: char where "CR = CHR 0x0D"

text \<open>Module-level configuration read from config.json (base.py, line 36).\<close>

record config =
  TEST_MODE :: bool

text \<open>
  A \<open>timedelta\<close> is a number of microseconds. \<open>timedelta(hours=h)\<close>:
\<close>

type_synonym timedelta = int

definition hours :: "int \<Rightarrow> timedelta" where
  "hours h = h * 3600000000"

subsection \<open>datetime\<close>

text \<open>
  The wall-clock fields of a \<open>datetime\<close>. \<open>datetime.now(CENTRAL)\<close> is always
  offset-aware: it is a \<open>localtime\<close>, the wall clock together with the UTC offset of
  the zone at that time, in minutes. A \<open>datetime\<close> obtained from a string is naive
  (\<open>tzinfo = None\<close>) or carries a fixed UTC offset, a \<open>timedelta\<close>.
\<close>

record wallclock =
  year :: int
  month :: int
  day :: int
  hour :: int
  minute :: int
  second :: int
  microsecond :: int

record localtime = wallclock +
  utcoffset :: int

record datetime = wallclock +
  tzinfo :: "timedelta option"

text \<open>Days since 1970-01-01 of a proleptic Gregorian date.\<close>

definition days_from_civil :: "int \<Rightarrow> int \<Rightarrow> int \<Rightarrow> int" where
  "days_from_civil y m d =
     (let y' = (if m \<le> 2 then y - 1 else y);
          era = y' div 400;
          yoe = y' - era * 400;
          doy = (153 * (if m > 2 then m - 3 else m + 9) + 2) div 5 + d - 1;
          doe = yoe * 365 + yoe div 4 - yoe div 100 + doy
      in era * 146097 + doe - 719468)"

text \<open>Microseconds from the epoch to the wall-clock reading, taken as if it were UTC.\<close>

definition wall_micros :: "'a wallclock_scheme \<Rightarrow> int" where
  "wall_micros w =
     (((days_from_civil (year w) (month w) (day w) * 24 + hour w) * 60 + minute w) * 60
        + second w) * 1000000 + microsecond w"

definition utc_micros_now :: "localtime \<Rightarrow> int" where
  "utc_micros_now n = wall_micros n - utcoffset n * 60000000"

text \<open>
  \<open>now - last_sent\<close> with \<open>now\<close> aware: subtracting a naive datetime raises
  TypeError; otherwise both are converted to UTC (the two carry different tzinfo
  objects, a ZoneInfo and a fixed offset).
\<close>

definition now_minus :: "localtime \<Rightarrow> datetime \<Rightarrow> pyerror + timedelta" where
  "now_minus n d =
     (case tzinfo d of
        None \<Rightarrow> Inl TypeError
      | Some off \<Rightarrow> Inr (utc_micros_now n - (wall_micros d - off)))"

text \<open>\<open>.date()\<close>: the calendar date of the wall-clock fields.\<close>

definition date :: "'a wallclock_scheme \<Rightarrow> int \<times> int \<times> int" where
  "date w = (year w, month w, day w)"

subsection \<open>datetime.isoformat and number formatting\<close>

definition digit_char :: "int \<Rightarrow> char" where
  "digit_char n = ''0123456789'' ! nat (n mod 10)"

definition pad2 :: "int \<Rightarrow> string" where
  "pad2 n = [digit_char (n div 10), digit_char n]"

definition pad4 :: "int \<Rightarrow> string" where
  "pad4 n = [digit_char (n div 1000), digit_char (n div 100), digit_char (n div 10),
             digit_char n]"

definition pad6 :: "int \<Rightarrow> string" where
  "pad6 n = [digit_char (n div 100000), digit_char (n div 10000), digit_char (n div 1000),
             digit_char (n div 100), digit_char (n div 10), digit_char n]"

text \<open>
  \<open>now.isoformat()\<close> of an aware datetime whose offset is a whole number of minutes:
  the microseconds are printed only when they are not zero, the offset always.
\<close>

definition isoformat :: "localtime \<Rightarrow> string" where
  "isoformat n =
     pad4 (year n) @ ''-'' @ pad2 (month n) @ ''-'' @ pad2 (day n) @ ''T''
       @ pad2 (hour n) @ '':'' @ pad2 (minute n) @ '':'' @ pad2 (second n)
       @ (if microsecond n = 0 then [] else ''.'' @ pad6 (microsecond n))
       @ (if utcoffset n < 0 then ''-'' else ''+'')
       @ pad2 (\<bar>utcoffset n\<bar> div 60) @ '':'' @ pad2 (\<bar>utcoffset n\<bar> mod 60)"

text \<open>The decimal digits of a natural number, without leading zeros.\<close>

fun digits_of :: "int \<Rightarrow> string" where
  "digits_of n = (if n < 10 then [digit_char n] else digits_of (n div 10) @ [digit_char n])"

declare digits_of.simps [simp del]

text \<open>Rounding to the nearest integer, ties to the even one.\<close>

definition round_half_even :: "real \<Rightarrow> int" where
  "round_half_even x =
     (let f = \<lfloor>x\<rfloor>; r = x - of_int f
      in if r < 1 / 2 then f else if 1 / 2 < r then f + 1
         else if even f then f else f + 1)"

text \<open>
  The format \<open>f"{level:.1f}"\<close> of a finite number: the exact value rounded to one
  decimal place, ties to even, with the sign of the value.
\<close>

definition fmt1 :: "real \<Rightarrow> string" where
  "fmt1 x =
     (let n = round_half_even (\<bar>x\<bar> * 10)
      in (if x < 0 then ''-'' else []) @ digits_of (n div 10) @ ''.'' @ [digit_char n])"

section \<open>Text files and the csv module\<close>

text \<open>
  Iterating a file opened with \<open>newline=""\<close> yields its lines, each with its
  terminator \<open>\n\<close>, \<open>\r\<close> or \<open>\r\n\<close> left in place (the last line may
  have none). \<open>f.readline()\<close> returns the first of them, the empty string at the end
  of the file.
\<close>

fun file_lines :: "string \<Rightarrow> string list" where
  "file_lines [] = []"
| "file_lines (c # cs) =
     (if c = LF then [c] # file_lines cs
      else if c = CR then
        (case cs of
           [] \<Rightarrow> [[c]]
         | d # ds \<Rightarrow> (if d = LF then [c, d] # file_lines ds else [c] # file_lines cs))
      else (case file_lines cs of [] \<Rightarrow> [[c]] | l # ls \<Rightarrow> (c # l) # ls))"

fun readline :: "string \<Rightarrow> string" where
  "readline [] = []"
| "readline (c # cs) =
     (if c = LF then [c]
      else if c = CR then
        (case cs of [] \<Rightarrow> [c] | d # ds \<Rightarrow> (if d = LF then [c, d] else [c]))
      else c # readline cs)"

subsection \<open>csv.reader\<close>

text \<open>
  The reader of the csv module (CPython 3.11 and later) in the default dialect, the one
  the program uses: delimiter comma, quote character \<open>"\<close> written twice inside a
  quoted field, no escape character, not strict. It is a state machine fed with the
  characters of each line and, at the end of each line, with the end-of-line mark
  (\<open>None\<close> here). The states of the escape character are left out. A field may grow
  up to \<open>field_size_limit\<close> characters; adding one more raises \<open>csv.Error\<close>.
\<close>

datatype ParserState =
  START_RECORD | START_FIELD | IN_FIELD | IN_QUOTED_FIELD | QUOTE_IN_QUOTED_FIELD | EAT_CRNL

record ReaderObj =
  state :: ParserState
  fieldlist :: "string list"
  field :: string

definition field_limit :: int where
  "field_limit = 131072"

definition parse_reset :: ReaderObj where
  "parse_reset = \<lparr>state = START_RECORD, fieldlist = [], field = []\<rparr>"

definition parse_add_char :: "ReaderObj \<Rightarrow> char \<Rightarrow> pyerror + ReaderObj" where
  "parse_add_char self c =
     (if int (length (field self)) \<ge> field_limit then Inl csv_Error
      else Inr (self\<lparr>field := field self @ [c]\<rparr>))"

definition parse_save_field :: "ReaderObj \<Rightarrow> ReaderObj" where
  "parse_save_field self = self\<lparr>fieldlist := fieldlist self @ [field self], field := []\<rparr>"

definition is_newline :: "char \<Rightarrow> bool" where
  "is_newline c = (c = LF \<or> c = CR)"

text \<open>
  The end of a record: the field is saved and the state becomes START_RECORD at the
  end-of-line mark, EAT_CRNL at a newline character.
\<close>

definition end_record :: "ReaderObj \<Rightarrow> char option \<Rightarrow> ReaderObj" where
  "end_record self c =
     (parse_save_field self)\<lparr>state := (if c = None then START_RECORD else EAT_CRNL)\<rparr>"

text \<open>The case START_FIELD, into which the case START_RECORD falls through.\<close>

definition start_field :: "ReaderObj \<Rightarrow> char option \<Rightarrow> pyerror + ReaderObj" where
  "start_field self c =
     (case c of
        None \<Rightarrow> Inr (end_record self c)
      | Some ch \<Rightarrow>
          (if is_newline ch then Inr (end_record self c)
           else if ch = CHR 0x22 then Inr (self\<lparr>state := IN_QUOTED_FIELD\<rparr>)
           else if ch = CHR '','' then Inr (parse_save_field self)
           else (case parse_add_char self ch of
                   Inl e \<Rightarrow> Inl e
                 | Inr self' \<Rightarrow> Inr (self'\<lparr>state := IN_FIELD\<rparr>))))"

definition parse_process_char :: "ReaderObj \<Rightarrow> char option \<Rightarrow> pyerror + ReaderObj" where
  "parse_process_char self c =
     (case state self of
        START_RECORD \<Rightarrow>
          (case c of
             None \<Rightarrow> Inr self
           | Some ch \<Rightarrow>
               (if is_newline ch then Inr (self\<lparr>state := EAT_CRNL\<rparr>)
                else start_field (self\<lparr>state := START_FIELD\<rparr>) c))
      | START_FIELD \<Rightarrow> start_field self c
      | IN_FIELD \<Rightarrow>
          (case c of
             None \<Rightarrow> Inr (end_record self c)
           | Some ch \<Rightarrow>
               (if is_newline ch then Inr (end_record self c)
                else if ch = CHR '','' then Inr ((parse_save_field self)\<lparr>state := START_FIELD\<rparr>)
                else parse_add_char self ch))
      | IN_QUOTED_FIELD \<Rightarrow>
          (case c of
             None \<Rightarrow> Inr self
           | Some ch \<Rightarrow>
               (if ch = CHR 0x22 then Inr (self\<lparr>state := QUOTE_IN_QUOTED_FIELD\<rparr>)
                else parse_add_char self ch))
      | QUOTE_IN_QUOTED_FIELD \<Rightarrow>
          (case c of
             None \<Rightarrow> Inr (end_record self c)
           | Some ch \<Rightarrow>
               (if ch = CHR 0x22 then
                  (case parse_add_char self ch of
                     Inl e \<Rightarrow> Inl e
                   | Inr self' \<Rightarrow> Inr (self'\<lparr>state := IN_QUOTED_FIELD\<rparr>))
                else if ch = CHR '','' then Inr ((parse_save_field self)\<lparr>state := START_FIELD\<rparr>)
                else if is_newline ch then Inr (end_record self c)
                else (case parse_add_char self ch of
                        Inl e \<Rightarrow> Inl e
                      | Inr self' \<Rightarrow> Inr (self'\<lparr>state := IN_FIELD\<rparr>))))
      | EAT_CRNL \<Rightarrow>
          (case c of
             None \<Rightarrow> Inr (self\<lparr>state := START_RECORD\<rparr>)
           | Some ch \<Rightarrow> (if is_newline ch then Inr self else Inl csv_Error)))"

text \<open>One line: its characters in turn, then the end-of-line mark.\<close>

fun process_chars :: "ReaderObj \<Rightarrow> string \<Rightarrow> pyerror + ReaderObj" where
  "process_chars self [] = Inr self"
| "process_chars self (c # cs) =
     (case parse_process_char self (Some c) of
        Inl e \<Rightarrow> Inl e
      | Inr self' \<Rightarrow> process_chars self' cs)"

definition process_line :: "ReaderObj \<Rightarrow> string \<Rightarrow> pyerror + ReaderObj" where
  "process_line self line =
     (case process_chars self line of
        Inl e \<Rightarrow> Inl e
      | Inr self' \<Rightarrow> parse_process_char self' None)"

text \<open>
  Iterating the reader: lines are consumed until the state is START_RECORD again, which
  ends a record (a quoted field may run over several lines); the machine is reset before
  the next record. When the lines run out inside a record, the record read so far is
  returned. The result is the list of the records yielded and the exception, if any,
  that ends the iteration after them.
\<close>

fun Reader_iter :: "ReaderObj \<Rightarrow> string list \<Rightarrow> string list list \<times> pyerror option" where
  "Reader_iter self [] =
     (if field self \<noteq> [] \<or> state self = IN_QUOTED_FIELD
      then ([fieldlist (parse_save_field self)], None) else ([], None))"
| "Reader_iter self (line # lines) =
     (case process_line self line of
        Inl e \<Rightarrow> ([], Some e)
      | Inr self' \<Rightarrow>
          (if state self' = START_RECORD then
             (case Reader_iter parse_reset lines of
                (records, stop) \<Rightarrow> (fieldlist self' # records, stop))
           else Reader_iter self' lines))"

definition csv_reader :: "string \<Rightarrow> string list list \<times> pyerror option" where
  "csv_reader content = Reader_iter parse_reset (file_lines content)"

subsection \<open>csv.DictReader\<close>

text \<open>
  A row of \<open>csv.DictReader\<close>: a dict from the field names to strings, with
  \<open>None\<close> for the fields a short row lacks and the surplus of a long row as a list
  under the key \<open>None\<close>. The dict is the list of its assignments in order; a later
  assignment to a key wins.
\<close>

datatype cell = Str string | NoneVal | Rest "string list"

type_synonym rowdict = "(string option \<times> cell) list"

definition dict_get :: "rowdict \<Rightarrow> string \<Rightarrow> cell option" where
  "dict_get d k = map_of (rev d) (Some k)"

definition getitem :: "rowdict \<Rightarrow> string \<Rightarrow> pyerror + cell" where
  "getitem d k = (case dict_get d k of None \<Rightarrow> Inl KeyError | Some v \<Rightarrow> Inr v)"

definition dict_row :: "string list \<Rightarrow> string list \<Rightarrow> rowdict" where
  "dict_row fieldnames row =
     zip (map Some fieldnames)
         (map Str row @ replicate (length fieldnames - length row) NoneVal)
       @ (if length fieldnames < length row
          then [(None, Rest (drop (length fieldnames) row))] else [])"

text \<open>
  \<open>csv.DictReader(f)\<close>, as three components: \<open>fieldnames\<close>, the first record
  (\<open>None\<close> for a file without one, the exception when reading it raises); the rows
  the iteration yields, the empty records being skipped; the exception, if any, that
  ends the iteration after these rows.
\<close>

definition DictReader ::
  "string \<Rightarrow> (pyerror + string list option) \<times> rowdict list \<times> pyerror option" where
  "DictReader content =
     (case csv_reader content of
        ([], None) \<Rightarrow> (Inr None, [], None)
      | ([], Some e) \<Rightarrow> (Inl e, [], Some e)
      | (fieldnames # rest, stop) \<Rightarrow>
          (Inr (Some fieldnames),
           map (dict_row fieldnames) (filter (\<lambda>r. r \<noteq> []) rest), stop))"

subsection \<open>csv.writer and csv.DictWriter\<close>

text \<open>\<open>csv.writer.writerow\<close> in the default dialect: minimal quoting, CR LF.\<close>

definition needs_quote :: "string \<Rightarrow> bool" where
  "needs_quote f = list_ex (\<lambda>c. c = CHR '','' \<or> c = CHR 0x22 \<or> c = CR \<or> c = LF) f"

definition quote_field :: "string \<Rightarrow> string" where
  "quote_field f =
     (if needs_quote f
      then [CHR 0x22] @ concat (map (\<lambda>c. if c = CHR 0x22 then [c, c] else [c]) f) @ [CHR 0x22]
      else f)"

fun join_commas :: "string list \<Rightarrow> string" where
  "join_commas [] = []"
| "join_commas [f] = f"
| "join_commas (f # g # fs) = f @ '','' @ join_commas (g # fs)"

definition writerow :: "string list \<Rightarrow> string" where
  "writerow fs =
     (if fs = [[]] then [CHR 0x22, CHR 0x22] else join_commas (map quote_field fs))
       @ [CR, LF]"

text \<open>
  \<open>csv.DictWriter.writerow\<close>: ValueError when the dict has a key that is no field
  name; a missing key is written as the empty string, and so is \<open>None\<close>.
\<close>

definition cell_text :: "cell option \<Rightarrow> string" where
  "cell_text v = (case v of Some (Str s) \<Rightarrow> s | _ \<Rightarrow> [])"

definition DictWriter_writerow :: "string list \<Rightarrow> rowdict \<Rightarrow> pyerror + string" where
  "DictWriter_writerow fieldnames d =
     (if list_ex (\<lambda>k. k \<notin> Some ` set fieldnames) (map fst d) then Inl ValueError
      else Inr (writerow (map (\<lambda>k. cell_text (dict_get d k)) fieldnames)))"

text \<open>
  \<open>csv.DictWriter.writeheader\<close> writes \<open>dict(zip(fieldnames, fieldnames))\<close>;
  it raises TypeError when \<open>fieldnames\<close> is \<open>None\<close>.
\<close>

definition DictWriter_writeheader :: "string list option \<Rightarrow> pyerror + string" where
  "DictWriter_writeheader fieldnames =
     (case fieldnames of
        None \<Rightarrow> Inl TypeError
      | Some fns \<Rightarrow> DictWriter_writerow fns (zip (map Some fns) (map Str fns)))"


section \<open>base.py\<close>

text \<open>
  The waste-tray thresholds are integers. The litter thresholds are the doubles the
  literals \<open>0.2\<close> and \<open>0.6\<close> denote, given by their exact values: a level is
  a double too, and \<open>level <= 0.2\<close> compares the two doubles. Levels are modelled as
  real numbers, which covers every finite double (NaN compares false with everything).
\<close>

definition BOXcutoff1 :: real where "BOXcutoff1 = 90"
definition BOXcutoff2 :: real where "BOXcutoff2 = 70"

definition litterLevel1 :: real where
  "litterLevel1 = 3602879701896397 / 18014398509481984"

definition litterLevel2 :: real where
  "litterLevel2 = 5404319552844595 / 9007199254740992"

text \<open>
  Gate 2a of \<open>should_send\<close> (lines 122 to 136): either the function returns, or it
  goes on with the local variable \<open>window\<close>, which stays unbound (\<open>None\<close>) when
  \<open>msg_type\<close> is neither "container" nor "litter".
\<close>

datatype gate = Return bool | Continue "timedelta option"

definition gate_2a :: "real \<Rightarrow> string \<Rightarrow> gate" where
  "gate_2a level msg_type =
     (if msg_type = ''container'' then
        (if level \<ge> BOXcutoff1 then Continue (Some (hours 1))
         else if level \<ge> BOXcutoff2 then Continue (Some (hours 4))
         else Return False)
      else if msg_type = ''litter'' then
        (if level \<le> litterLevel1 then Continue (Some (hours 1))
         else if level \<le> litterLevel2 then Continue (Some (hours 4))
         else Return False)
      else Continue None)"

text \<open>
  The list comprehension of lines 143 to 146 and 167 to 170:
  \<open>[r for r in csv.DictReader(f) if r["sent"] == "True" and r.get("type") == msg_type]\<close>.
  The rows are taken from the reader one at a time: \<open>r["sent"]\<close> raises KeyError at
  the first row without such a key, and the exception that ends the iteration, if there
  is one, is raised after the rows before it have passed.
\<close>

fun select_rows :: "string \<Rightarrow> rowdict list \<Rightarrow> pyerror option \<Rightarrow> pyerror + rowdict list" where
  "select_rows msg_type [] stop = (case stop of None \<Rightarrow> Inr [] | Some e \<Rightarrow> Inl e)"
| "select_rows msg_type (r # rs) stop =
     (case getitem r ''sent'' of
        Inl e \<Rightarrow> Inl e
      | Inr v \<Rightarrow>
          (case select_rows msg_type rs stop of
             Inl e \<Rightarrow> Inl e
           | Inr rows \<Rightarrow>
               Inr (if v = Str ''True'' \<and> dict_get r ''type'' = Some (Str msg_type)
                    then r # rows else rows)))"

text \<open>
  \<open>datetime.fromisoformat(rows[-1]["timestamp"])\<close>, for a non-empty \<open>rows\<close>;
  the argument \<open>None\<close> raises TypeError. The function \<open>datetime.fromisoformat\<close>
  belongs to the Python library, and the strings it accepts differ between the versions
  of Python (3.11 widened them). It is an argument, \<open>fromisoformat\<close>, of every
  function below that calls it, and the theorems hold for every such function.
\<close>

definition last_timestamp ::
  "(string \<Rightarrow> pyerror + datetime) \<Rightarrow> rowdict list \<Rightarrow> pyerror + datetime" where
  "last_timestamp fromisoformat rows =
     (case getitem (last rows) ''timestamp'' of
        Inl e \<Rightarrow> Inl e
      | Inr (Str s) \<Rightarrow> fromisoformat s
      | Inr _ \<Rightarrow> Inl TypeError)"

text \<open>
  \<open>should_send\<close> (lines 96 to 152). The arguments \<open>now\<close> and \<open>logf\<close> are what
  the function reads from its environment: the clock \<open>datetime.now(CENTRAL)\<close> and the
  content of LOG_FILE (\<open>None\<close> when the file does not exist).
\<close>

definition should_send ::
  "(string \<Rightarrow> pyerror + datetime) \<Rightarrow> config \<Rightarrow> localtime \<Rightarrow> string option \<Rightarrow> real \<Rightarrow> string
     \<Rightarrow> pyerror + bool" where
  "should_send fromisoformat cfg now logf level msg_type =
     (if \<not> (8 \<le> hour now \<and> hour now < 23) then Inr False
      else
        (case gate_2a level msg_type of
           Return b \<Rightarrow> Inr b
         | Continue window \<Rightarrow>
             (case logf of
                None \<Rightarrow> Inr True
              | Some content \<Rightarrow>
                  (case DictReader content of
                     (fieldnames, rs, stop) \<Rightarrow>
                       (case select_rows msg_type rs stop of
                          Inl e \<Rightarrow> Inl e
                        | Inr rows \<Rightarrow>
                            (if rows = [] then Inr True
                             else
                               (case last_timestamp fromisoformat rows of
                                  Inl e \<Rightarrow> Inl e
                                | Inr last_sent \<Rightarrow>
                                    (case now_minus now last_sent of
                                       Inl e \<Rightarrow> Inl e
                                     | Inr delta \<Rightarrow>
                                         (case window of
                                            None \<Rightarrow> Inl UnboundLocalError
                                          | Some w \<Rightarrow>
                                              (if delta < w then Inr False
                                               else Inr True))))))))))"

text \<open>\<open>should_send_morning\<close> (lines 155 to 175).\<close>

definition should_send_morning ::
  "(string \<Rightarrow> pyerror + datetime) \<Rightarrow> config \<Rightarrow> localtime \<Rightarrow> string option \<Rightarrow> pyerror + bool" where
  "should_send_morning fromisoformat cfg now logf =
     (if TEST_MODE cfg then Inr True
      else if \<not> (8 \<le> hour now \<and> hour now < 9) then Inr False
      else
        (case logf of
           None \<Rightarrow> Inr True
         | Some content \<Rightarrow>
             (case DictReader content of
                (fieldnames, rs, stop) \<Rightarrow>
                  (case select_rows ''morning'' rs stop of
                     Inl e \<Rightarrow> Inl e
                   | Inr rows \<Rightarrow>
                       (if rows = [] then Inr True
                        else
                          (case last_timestamp fromisoformat rows of
                             Inl e \<Rightarrow> Inl e
                           | Inr last_sent \<Rightarrow>
                               (if date last_sent = date now then Inr False
                                else Inr True)))))))"

definition LOG_FIELDNAMES :: "string list" where
  "LOG_FIELDNAMES = [''timestamp'', ''type'', ''level'', ''sent'']"

text \<open>\<open>str.strip()\<close> removes the white space at both ends.\<close>

definition is_space :: "char \<Rightarrow> bool" where
  "is_space c =
     ((of_char c :: nat) \<in> {9, 10, 11, 12, 13, 28, 29, 30, 31, 32, 133, 160})"

definition strip :: "string \<Rightarrow> string" where
  "strip s = dropWhile is_space (rev (dropWhile is_space (rev s)))"

text \<open>
  \<open>_ensure_log_header\<close> (lines 227 to 246), as a function of the content of
  LOG_FILE.
\<close>

definition ensure_log_header :: "string option \<Rightarrow> string option" where
  "ensure_log_header logf =
     (case logf of
        None \<Rightarrow> None
      | Some content \<Rightarrow>
          (let first_line = strip (readline content)
           in if first_line \<noteq> join_commas LOG_FIELDNAMES
              then Some (join_commas LOG_FIELDNAMES @ [LF] @ content)
              else Some content))"

text \<open>
  \<open>log_reading\<close> (lines 249 to 280): the content of LOG_FILE after the append.
  The csv writer turns the boolean \<open>sent\<close> into \<open>str(sent)\<close>.
\<close>

definition log_reading ::
  "localtime \<Rightarrow> string option \<Rightarrow> real \<Rightarrow> bool \<Rightarrow> string \<Rightarrow> pyerror + string" where
  "log_reading now logf level sent msg_type =
     (let write_header = (logf = None);
          f = (case logf of None \<Rightarrow> [] | Some content \<Rightarrow> content)
      in case (if write_header then DictWriter_writeheader (Some LOG_FIELDNAMES)
               else Inr []) of
           Inl e \<Rightarrow> Inl e
         | Inr header \<Rightarrow>
             (case DictWriter_writerow LOG_FIELDNAMES
                     [(Some ''timestamp'', Str (isoformat now)),
                      (Some ''type'', Str msg_type),
                      (Some ''level'', Str (fmt1 level)),
                      (Some ''sent'', Str (if sent then ''True'' else ''False''))] of
                Inl e \<Rightarrow> Inl e
              | Inr row \<Rightarrow> Inr (f @ header @ row)))"

section \<open>cleanup.py\<close>



text \<open>
  \<open>cutoff = datetime.now(CENTRAL) - timedelta(hours=48)\<close>: the arithmetic is on the
  wall clock, and the offset of the result is the one the zone has at that wall-clock
  time. The zone is a parameter: \<open>CENTRAL w\<close> is the UTC offset, in minutes, of
  America/Chicago at the wall-clock time \<open>w\<close> (microseconds from the epoch).
\<close>

definition cutoff_instant :: "(int \<Rightarrow> int) \<Rightarrow> localtime \<Rightarrow> int" where
  "cutoff_instant CENTRAL now =
     (let w = wall_micros now - hours 48 in w - CENTRAL w * 60000000)"





section \<open>The log and the decisions in the terms of the specification\<close>

text \<open>
  The entries of the log are the rows \<open>csv.DictReader\<close> yields; a missing file has
  none. The scan of the log raises nothing when the csv module reads the file to its
  end and every row has a \<open>sent\<close> column: the log is then called readable. A
  missing file is readable, and so is every file under the header of LOG_FIELDNAMES that
  the csv module reads to its end.
\<close>

definition log_rows :: "string option \<Rightarrow> rowdict list" where
  "log_rows logf =
     (case logf of None \<Rightarrow> [] | Some content \<Rightarrow> fst (snd (DictReader content)))"

definition log_stop :: "string option \<Rightarrow> pyerror option" where
  "log_stop logf =
     (case logf of None \<Rightarrow> None | Some content \<Rightarrow> snd (snd (DictReader content)))"

definition has_sent :: "rowdict \<Rightarrow> bool" where
  "has_sent r = (dict_get r ''sent'' \<noteq> None)"

definition readable :: "string option \<Rightarrow> bool" where
  "readable logf = (log_stop logf = None \<and> list_all has_sent (log_rows logf))"

text \<open>
  An entry was sent for a kind when its \<open>sent\<close> field is the token \<open>True\<close> and
  its \<open>type\<close> field is the kind. \<open>lastSent(kind)\<close> of the specification is the
  most recently appended entry that was sent for the kind.
\<close>

definition is_sent :: "string \<Rightarrow> rowdict \<Rightarrow> bool" where
  "is_sent kind r =
     (dict_get r ''sent'' = Some (Str ''True'') \<and> dict_get r ''type'' = Some (Str kind))"

definition sent_rows :: "string \<Rightarrow> string option \<Rightarrow> rowdict list" where
  "sent_rows kind logf = filter (is_sent kind) (log_rows logf)"

definition lastSent :: "string \<Rightarrow> string option \<Rightarrow> rowdict option" where
  "lastSent kind logf =
     (if sent_rows kind logf = [] then None else Some (last (sent_rows kind logf)))"

text \<open>
  The timestamp of an entry, read with \<open>datetime.fromisoformat\<close>: the exception
  that reading it raises, if any (KeyError without a \<open>timestamp\<close> column, TypeError
  for the \<open>None\<close> of a row that is too short, otherwise what
  \<open>datetime.fromisoformat\<close> raises on the string); the datetime read; its instant
  (microseconds from the epoch, UTC) when it carries an offset; its calendar date, as it
  is written in the timestamp.
\<close>

definition timestamp_error :: "(string \<Rightarrow> pyerror + datetime) \<Rightarrow> rowdict \<Rightarrow> pyerror option" where
  "timestamp_error fromisoformat e =
     (case dict_get e ''timestamp'' of
        None \<Rightarrow> Some KeyError
      | Some (Str s) \<Rightarrow> (case fromisoformat s of Inl err \<Rightarrow> Some err | Inr d \<Rightarrow> None)
      | Some _ \<Rightarrow> Some TypeError)"

definition entry_datetime :: "(string \<Rightarrow> pyerror + datetime) \<Rightarrow> rowdict \<Rightarrow> datetime option" where
  "entry_datetime fromisoformat e =
     (case dict_get e ''timestamp'' of
        Some (Str s) \<Rightarrow> (case fromisoformat s of Inr d \<Rightarrow> Some d | Inl err \<Rightarrow> None)
      | _ \<Rightarrow> None)"

definition entry_instant :: "(string \<Rightarrow> pyerror + datetime) \<Rightarrow> rowdict \<Rightarrow> int option" where
  "entry_instant fromisoformat e =
     (case entry_datetime fromisoformat e of
        None \<Rightarrow> None
      | Some d \<Rightarrow> (case tzinfo d of None \<Rightarrow> None | Some off \<Rightarrow> Some (wall_micros d - off)))"

definition entry_date ::
  "(string \<Rightarrow> pyerror + datetime) \<Rightarrow> rowdict \<Rightarrow> (int \<times> int \<times> int) option" where
  "entry_date fromisoformat e = map_option date (entry_datetime fromisoformat e)"

text \<open>
  The exception that comparing the timestamp of an entry with \<open>now\<close> raises, if any:
  the one of reading it, or TypeError when the datetime read is naive.
\<close>

definition timestamp_fault :: "(string \<Rightarrow> pyerror + datetime) \<Rightarrow> rowdict \<Rightarrow> pyerror option" where
  "timestamp_fault fromisoformat e =
     (case timestamp_error fromisoformat e of
        Some err \<Rightarrow> Some err
      | None \<Rightarrow> (if entry_instant fromisoformat e = None then Some TypeError else None))"

text \<open>
  \<open>classify\<close>, \<open>windowFor\<close> and \<open>shouldSend\<close> as section 4.2 of the
  specification words them, with the thresholds of base.py. The window of no severity
  is unused.
\<close>

datatype severity = NoSeverity | Advisory | Urgent

definition classify :: "real \<Rightarrow> string \<Rightarrow> severity" where
  "classify level kind =
     (if kind = ''container'' then
        (if level \<ge> BOXcutoff1 then Urgent
         else if level \<ge> BOXcutoff2 then Advisory else NoSeverity)
      else
        (if level \<le> litterLevel1 then Urgent
         else if level \<le> litterLevel2 then Advisory else NoSeverity))"

fun windowFor :: "severity \<Rightarrow> timedelta" where
  "windowFor Urgent = hours 1"
| "windowFor Advisory = hours 4"
| "windowFor NoSeverity = 0"

definition shouldSend ::
  "(string \<Rightarrow> pyerror + datetime) \<Rightarrow> real \<Rightarrow> string \<Rightarrow> localtime \<Rightarrow> string option \<Rightarrow> bool" where
  "shouldSend fromisoformat level kind now logf =
     (classify level kind \<noteq> NoSeverity \<and>
      (case lastSent kind logf of
         None \<Rightarrow> True
       | Some e \<Rightarrow>
           (case entry_instant fromisoformat e of
              None \<Rightarrow> False
            | Some t \<Rightarrow> utc_micros_now now - t \<ge> windowFor (classify level kind))))"

text \<open>
  The last entry sent for the kind, if any, has a timestamp that is read as an instant;
  it has one that is read as a date.
\<close>

definition last_sent_aware :: "(string \<Rightarrow> pyerror + datetime) \<Rightarrow> string \<Rightarrow> string option \<Rightarrow> bool" where
  "last_sent_aware fromisoformat kind logf =
     (case lastSent kind logf of
        None \<Rightarrow> True
      | Some e \<Rightarrow> entry_instant fromisoformat e \<noteq> None)"











text \<open>
  The lines of a log file as text, without their terminators: the first line, and the
  data lines, which are the lines after the first that are not empty. The fields of a
  line without quote characters are its pieces between the commas.
\<close>

definition strip_eol :: "string \<Rightarrow> string" where
  "strip_eol l = takeWhile (\<lambda>c. c \<noteq> CR \<and> c \<noteq> LF) l"

definition first_line :: "string \<Rightarrow> string option" where
  "first_line content =
     (case file_lines content of [] \<Rightarrow> None | l # ls \<Rightarrow> Some (strip_eol l))"

definition data_lines :: "string \<Rightarrow> string list" where
  "data_lines content = filter (\<lambda>l. l \<noteq> []) (map strip_eol (tl (file_lines content)))"

fun split_commas :: "string \<Rightarrow> string list" where
  "split_commas [] = [[]]"
| "split_commas (c # cs) =
     (if c = CHR '','' then [] # split_commas cs
      else (case split_commas cs of [] \<Rightarrow> [[c]] | f # fs \<Rightarrow> (c # f) # fs))"

text \<open>
  A data line is well formed when it has four fields, no quote character and at most
  \<open>field_size_limit\<close> characters, and its first field is read as an instant; it is
  recent when that instant is not before the cutoff of \<open>cleanup_log\<close>.
\<close>

definition line_instant :: "(string \<Rightarrow> pyerror + datetime) \<Rightarrow> string \<Rightarrow> int option" where
  "line_instant fromisoformat l =
     (case fromisoformat (hd (split_commas l)) of
        Inl e \<Rightarrow> None
      | Inr d \<Rightarrow> (case tzinfo d of None \<Rightarrow> None | Some off \<Rightarrow> Some (wall_micros d - off)))"

definition well_formed_row :: "(string \<Rightarrow> pyerror + datetime) \<Rightarrow> string \<Rightarrow> bool" where
  "well_formed_row fromisoformat l =
     (length (split_commas l) = 4 \<and> line_instant fromisoformat l \<noteq> None
      \<and> CHR 0x22 \<notin> set l \<and> int (length l) \<le> field_limit)"

definition recent ::
  "(string \<Rightarrow> pyerror + datetime) \<Rightarrow> (int \<Rightarrow> int) \<Rightarrow> localtime \<Rightarrow> string \<Rightarrow> bool" where
  "recent fromisoformat CENTRAL now l =
     (case line_instant fromisoformat l of
        None \<Rightarrow> False
      | Some t \<Rightarrow> t \<ge> cutoff_instant CENTRAL now)"

text \<open>
  The external format of section 6 of the specification. A string matches a pattern
  when it has the characters of the pattern, with a digit for each \<open>d\<close> and a sign
  for each \<open>s\<close>. A timestamp is in ISO-8601 form with UTC offset when it reads
  \<open>YYYY-MM-DDTHH:MM:SS\<close>, an optional fraction of six digits, and \<open>+HH:MM\<close> or
  \<open>-HH:MM\<close>. A number has one decimal place when it is an optional minus sign, one
  or more digits, a point and one digit. A data row is four fields separated by commas
  and ended by CR LF.
\<close>

definition is_digit :: "char \<Rightarrow> bool" where
  "is_digit c = (48 \<le> (of_char c :: nat) \<and> (of_char c :: nat) \<le> 57)"

fun matches_pattern :: "string \<Rightarrow> string \<Rightarrow> bool" where
  "matches_pattern [] [] = True"
| "matches_pattern (p # ps) (c # cs) =
     ((if p = CHR ''d'' then is_digit c
       else if p = CHR ''s'' then c = CHR ''+'' \<or> c = CHR ''-''
       else c = p) \<and> matches_pattern ps cs)"
| "matches_pattern _ _ = False"

definition iso8601_with_offset :: "string \<Rightarrow> bool" where
  "iso8601_with_offset s =
     (matches_pattern ''dddd-dd-ddTdd:dd:ddsdd:dd'' s
      \<or> matches_pattern ''dddd-dd-ddTdd:dd:dd.ddddddsdd:dd'' s)"

definition one_decimal :: "string \<Rightarrow> bool" where
  "one_decimal s =
     (case rev (case s of [] \<Rightarrow> [] | c # cs \<Rightarrow> if c = CHR ''-'' then cs else s) of
        d # p # ds \<Rightarrow> is_digit d \<and> p = CHR ''.'' \<and> ds \<noteq> [] \<and> list_all is_digit ds
      | _ \<Rightarrow> False)"

definition CRLF :: string where
  "CRLF = [CR, LF]"

definition data_row :: "string \<Rightarrow> string \<Rightarrow> string \<Rightarrow> string \<Rightarrow> string" where
  "data_row ts kind lvl snt = ts @ '','' @ kind @ '','' @ lvl @ '','' @ snt @ CRLF"

section \<open>Example inputs\<close>

text \<open>
  An instance of the argument \<open>fromisoformat\<close> for the examples. It reads the
  timestamps that \<open>datetime.isoformat()\<close> writes and the program logs:
  \<open>YYYY-MM-DD\<close>, one separator character, \<open>HH:MM:SS\<close>, an optional
  \<open>.ffffff\<close> and an optional \<open>+HH:MM\<close> or \<open>-HH:MM\<close>; on these strings every
  version of \<open>datetime.fromisoformat\<close> returns the datetime given here. Any other
  string is answered with ValueError, as the library does for the strings of the
  examples that are no timestamps. The library reads some further forms of timestamps,
  more of them from Python 3.11 on; no theorem is stated about this instance, which
  only serves to evaluate the theorems on the example logs.
\<close>

definition digit_val :: "char \<Rightarrow> int" where
  "digit_val c = int (of_char c) - 48"

fun parse_num :: "int \<Rightarrow> string \<Rightarrow> int option" where
  "parse_num acc [] = Some acc"
| "parse_num acc (c # cs) =
     (if is_digit c then parse_num (acc * 10 + digit_val c) cs else None)"

definition is_leap :: "int \<Rightarrow> bool" where
  "is_leap y = (y mod 4 = 0 \<and> (y mod 100 \<noteq> 0 \<or> y mod 400 = 0))"

definition days_in_month :: "int \<Rightarrow> int \<Rightarrow> int" where
  "days_in_month y m =
     (if m = 2 then (if is_leap y then 29 else 28)
      else if m = 4 \<or> m = 6 \<or> m = 9 \<or> m = 11 then 30 else 31)"

definition parse_offset :: "string \<Rightarrow> pyerror + timedelta option" where
  "parse_offset s =
     (case s of
        [] \<Rightarrow> Inr None
      | [sg, h1, h2, c, m1, m2] \<Rightarrow>
          (if (sg = CHR ''+'' \<or> sg = CHR ''-'') \<and> c = CHR '':'' then
             (case (parse_num 0 [h1, h2], parse_num 0 [m1, m2]) of
                (Some h, Some m) \<Rightarrow>
                  (if h < 24 \<and> m < 60
                   then Inr (Some ((if sg = CHR ''-'' then - 1 else 1)
                                     * ((h * 60 + m) * 60000000)))
                   else Inl ValueError)
              | _ \<Rightarrow> Inl ValueError)
           else Inl ValueError)
      | _ \<Rightarrow> Inl ValueError)"

definition parse_fraction :: "string \<Rightarrow> pyerror + int \<times> timedelta option" where
  "parse_fraction s =
     (case s of
        c # rest \<Rightarrow>
          (if c = CHR ''.'' then
             (if length rest < 6 then Inl ValueError
              else (case parse_num 0 (take 6 rest) of
                      None \<Rightarrow> Inl ValueError
                    | Some us \<Rightarrow>
                        (case parse_offset (drop 6 rest) of
                           Inl e \<Rightarrow> Inl e
                         | Inr off \<Rightarrow> Inr (us, off))))
           else (case parse_offset s of Inl e \<Rightarrow> Inl e | Inr off \<Rightarrow> Inr (0, off)))
      | [] \<Rightarrow> Inr (0, None))"

definition fromisoformat_written :: "string \<Rightarrow> pyerror + datetime" where
  "fromisoformat_written s =
     (if length s < 19 then Inl ValueError
      else if s ! 4 \<noteq> CHR ''-'' \<or> s ! 7 \<noteq> CHR ''-'' \<or> s ! 13 \<noteq> CHR '':''
              \<or> s ! 16 \<noteq> CHR '':'' then Inl ValueError
      else
        (case (parse_num 0 (take 4 s), parse_num 0 (take 2 (drop 5 s)),
               parse_num 0 (take 2 (drop 8 s)), parse_num 0 (take 2 (drop 11 s)),
               parse_num 0 (take 2 (drop 14 s)), parse_num 0 (take 2 (drop 17 s))) of
           (Some y, Some mo, Some d, Some h, Some mi, Some sc) \<Rightarrow>
             (if 1 \<le> y \<and> 1 \<le> mo \<and> mo \<le> 12 \<and> 1 \<le> d \<and> d \<le> days_in_month y mo
                 \<and> h < 24 \<and> mi < 60 \<and> sc < 60 then
                (case parse_fraction (drop 19 s) of
                   Inl e \<Rightarrow> Inl e
                 | Inr (us, off) \<Rightarrow>
                     Inr \<lparr>year = y, month = mo, day = d, hour = h, minute = mi,
                          second = sc, microsecond = us, tzinfo = off\<rparr>)
              else Inl ValueError)
         | _ \<Rightarrow> Inl ValueError))"

text \<open>
  Clock readings of 2024-01-10 in America/Chicago (UTC-6): in quiet hours, in the hour
  of the digest, later in the morning, and the midnight that starts the day.
\<close>

definition night :: localtime where
  "night = \<lparr>year = 2024, month = 1, day = 10, hour = 3, minute = 0, second = 0,
            microsecond = 0, utcoffset = - 360\<rparr>"

definition morning :: localtime where
  "morning = \<lparr>year = 2024, month = 1, day = 10, hour = 8, minute = 30, second = 0,
              microsecond = 0, utcoffset = - 360\<rparr>"

definition noon :: localtime where
  "noon = \<lparr>year = 2024, month = 1, day = 10, hour = 10, minute = 0, second = 0,
           microsecond = 0, utcoffset = - 360\<rparr>"



definition canonical_header :: string where
  "canonical_header = ''timestamp,type,level,sent'' @ CRLF"

text \<open>A log written before the header was introduced: one row, no header.\<close>

definition headerless_log :: string where
  "headerless_log = ''2024-01-10T07:45:00-06:00,container,95.0,True'' @ CRLF"

text \<open>A log whose header line ends with a space.\<close>

definition padded_header_log :: string where
  "padded_header_log = ''timestamp,type,level,sent '' @ [LF]
     @ ''2024-01-10T07:45:00-06:00,container,95.0,True'' @ CRLF"

text \<open>Rows 72 hours, 40 hours and 1 hour before \<open>noon\<close>.\<close>

definition three_row_log :: string where
  "three_row_log = canonical_header
     @ ''2024-01-07T10:00:00-06:00,container,95.0,True'' @ CRLF
     @ ''2024-01-08T18:00:00-06:00,litter,15.0,False'' @ CRLF
     @ ''2024-01-10T09:00:00-06:00,container,96.0,True'' @ CRLF"

text \<open>
  A log whose last row has a timestamp that is no ISO-8601 instant, the same log
  without that row, and a log with that row before the well-formed one.
\<close>

definition malformed_log :: string where
  "malformed_log = canonical_header
     @ ''2024-01-10T09:30:00-06:00,container,96.0,True'' @ CRLF
     @ ''not-a-timestamp,container,97.0,True'' @ CRLF"

definition wellformed_rows_log :: string where
  "wellformed_rows_log = canonical_header
     @ ''2024-01-10T09:30:00-06:00,container,96.0,True'' @ CRLF"

definition malformed_middle_log :: string where
  "malformed_middle_log = canonical_header
     @ ''not-a-timestamp,container,97.0,True'' @ CRLF
     @ ''2024-01-10T09:30:00-06:00,container,96.0,True'' @ CRLF"


definition malformed_row :: rowdict where
  "malformed_row = dict_row LOG_FIELDNAMES [''not-a-timestamp'', ''container'', ''97.0'', ''True'']"

text \<open>
  Logs of morning digests: two digests, the later one sent on the day of the clock
  readings; one digest, sent the day before; two digests appended out of order, the one
  of the day before last; one digest with a timestamp without offset; one digest sent at
  01:00 UTC of the day, which is 19:00 of the day before in America/Chicago.
\<close>

definition digest_log :: string where
  "digest_log = canonical_header
     @ ''2024-01-09T08:05:00-06:00,morning,40.0,True'' @ CRLF
     @ ''2024-01-10T07:45:00-06:00,container,95.0,False'' @ CRLF
     @ ''2024-01-10T08:05:00-06:00,morning,41.0,True'' @ CRLF"



definition naive_digest_log :: string where
  "naive_digest_log = canonical_header
     @ ''2024-01-10T08:05:00,morning,41.0,True'' @ CRLF"



text \<open>
  A log whose second field of the only data row is quoted without need, and a log
  whose only data row stops after its second field.
\<close>

definition quoted_row_log :: string where
  "quoted_row_log = canonical_header
     @ ''2024-01-10T09:00:00-06:00,'' @ [CHR 0x22] @ ''container'' @ [CHR 0x22]
     @ '',96.0,True'' @ CRLF"

definition short_row_log :: string where
  "short_row_log = canonical_header @ ''2024-01-10T09:00:00-06:00,container'' @ CRLF"

section \<open>Properties\<close>

subsection \<open>Severity thresholds\<close>

lemma litter_thresholds_ordered: "litterLevel1 < litterLevel2"
  by (simp add: litterLevel1_def litterLevel2_def)

lemma hours_1_4: "hours 1 \<noteq> hours 4"
  by (simp add: hours_def)

text \<open>
  C9. The throttle window chosen by \<open>should_send\<close> puts a boundary value in the
  stricter tier. For the waste tray the one-hour (urgent) window is chosen exactly when
  the level is at least 90, the four-hour (advisory) window exactly when it is at least
  70 and below 90, and the function returns False (no severity) exactly below 70. For
  the litter the urgent window is chosen exactly when the level is at most the
  threshold \<open>0.2\<close>, the advisory window exactly when it is above \<open>0.2\<close> and at
  most \<open>0.6\<close>, and the function returns False exactly above \<open>0.6\<close>.
\<close>

theorem gate_2a_boundaries:
  "(gate_2a level ''container'' = Continue (Some (hours 1))) = (90 \<le> level)
   \<and> (gate_2a level ''container'' = Continue (Some (hours 4))) = (70 \<le> level \<and> level < 90)
   \<and> (gate_2a level ''container'' = Return False) = (level < 70)
   \<and> (gate_2a level ''litter'' = Continue (Some (hours 1))) = (level \<le> litterLevel1)
   \<and> (gate_2a level ''litter'' = Continue (Some (hours 4)))
        = (litterLevel1 < level \<and> level \<le> litterLevel2)
   \<and> (gate_2a level ''litter'' = Return False) = (litterLevel2 < level)"
  using litter_thresholds_ordered hours_1_4
  by (auto simp: gate_2a_def BOXcutoff1_def BOXcutoff2_def)

theorem gate_2a_boundaries_witness:
  "gate_2a 90 ''container'' = Continue (Some (hours 1))
   \<and> gate_2a 70 ''container'' = Continue (Some (hours 4))
   \<and> gate_2a litterLevel1 ''litter'' = Continue (Some (hours 1))
   \<and> gate_2a litterLevel2 ''litter'' = Continue (Some (hours 4))
   \<and> gate_2a (69.9) ''container'' = Return False
   \<and> gate_2a (0.61) ''litter'' = Return False"
  using gate_2a_boundaries [of 90] gate_2a_boundaries [of 70]
    gate_2a_boundaries [of litterLevel1] gate_2a_boundaries [of litterLevel2]
    gate_2a_boundaries [of "69.9"] gate_2a_boundaries [of "0.61"]
    litter_thresholds_ordered
  by (simp add: litterLevel2_def)

subsection \<open>Quiet hours and the verification mode\<close>

text \<open>
  C2. \<open>should_send\<close> never reads TEST_MODE: with the flag set, an urgent waste-tray
  level at 03:00 and no log file, it still returns False because of the hour.
\<close>

theorem should_send_quiet_hours_under_TEST_MODE:
  "should_send fromisoformat \<lparr>TEST_MODE = True\<rparr> night None 95 ''container'' = Inr False"
  by (simp add: should_send_def night_def)

theorem should_send_quiet_hours_under_TEST_MODE_witness:
  "TEST_MODE \<lparr>TEST_MODE = True\<rparr> \<and> hour night = 3
   \<and> gate_2a 95 ''container'' = Continue (Some (hours 1))
   \<and> should_send fromisoformat_written \<lparr>TEST_MODE = True\<rparr> night None 95 ''container''
       \<noteq> Inr True"
  using should_send_quiet_hours_under_TEST_MODE [of fromisoformat_written]
  by (simp add: night_def gate_2a_def BOXcutoff1_def)

subsection \<open>Reading the log\<close>

lemma select_rows_filter:
  "list_all has_sent rows \<Longrightarrow> select_rows kind rows None = Inr (filter (is_sent kind) rows)"
  by (induction rows) (auto simp: getitem_def is_sent_def has_sent_def split: option.splits)

lemma select_rows_log:
  "readable logf \<Longrightarrow>
   select_rows kind (log_rows logf) (log_stop logf) = Inr (sent_rows kind logf)"
  by (simp add: readable_def sent_rows_def select_rows_filter)

lemma last_timestamp_entry:
  "last_timestamp P rows =
     (case dict_get (last rows) ''timestamp'' of
        None \<Rightarrow> Inl KeyError
      | Some (Str s) \<Rightarrow> P s
      | Some _ \<Rightarrow> Inl TypeError)"
  by (simp add: last_timestamp_def getitem_def split: option.splits cell.splits)

lemma last_timestamp_fault:
  "(case last_timestamp P rows of Inl e \<Rightarrow> Inl e | Inr d \<Rightarrow> now_minus now d) =
   (case timestamp_fault P (last rows) of
      Some err \<Rightarrow> Inl err
    | None \<Rightarrow> Inr (utc_micros_now now - the (entry_instant P (last rows))))"
  by (auto simp: last_timestamp_entry timestamp_fault_def timestamp_error_def
      entry_instant_def entry_datetime_def now_minus_def
      split: option.splits cell.splits sum.splits)

lemma last_timestamp_error:
  "last_timestamp P rows =
   (case timestamp_error P (last rows) of
      Some err \<Rightarrow> Inl err
    | None \<Rightarrow> Inr (the (entry_datetime P (last rows))))"
  by (auto simp: last_timestamp_entry timestamp_error_def entry_datetime_def
      split: option.splits cell.splits sum.splits)

lemma should_send_log:
  "should_send P cfg now logf level kind =
     (if \<not> (8 \<le> hour now \<and> hour now < 23) then Inr False
      else case gate_2a level kind of
        Return b \<Rightarrow> Inr b
      | Continue window \<Rightarrow>
          (case select_rows kind (log_rows logf) (log_stop logf) of
             Inl e \<Rightarrow> Inl e
           | Inr rows \<Rightarrow>
               if rows = [] then Inr True
               else case (case last_timestamp P rows of
                            Inl e \<Rightarrow> Inl e | Inr d \<Rightarrow> now_minus now d) of
                  Inl e \<Rightarrow> Inl e
                | Inr delta \<Rightarrow>
                   (case window of
                      None \<Rightarrow> Inl UnboundLocalError
                    | Some w \<Rightarrow> Inr (\<not> delta < w))))"
  by (auto simp: should_send_def log_rows_def log_stop_def
      split: option.splits gate.splits sum.splits prod.splits)

lemma should_send_last:
  assumes "readable logf"
  shows "should_send P cfg now logf level kind =
     (if \<not> (8 \<le> hour now \<and> hour now < 23) then Inr False
      else case gate_2a level kind of
        Return b \<Rightarrow> Inr b
      | Continue window \<Rightarrow>
          (case lastSent kind logf of
             None \<Rightarrow> Inr True
           | Some e \<Rightarrow>
               (case timestamp_fault P e of
                  Some err \<Rightarrow> Inl err
                | None \<Rightarrow>
                   (case window of
                      None \<Rightarrow> Inl UnboundLocalError
                    | Some w \<Rightarrow> Inr (\<not> utc_micros_now now - the (entry_instant P e) < w)))))"
  using assms
  by (simp add: should_send_log select_rows_log last_timestamp_fault lastSent_def
      split: gate.splits option.splits)

lemma should_send_morning_log:
  "should_send_morning P cfg now logf =
     (if TEST_MODE cfg then Inr True
      else if \<not> (8 \<le> hour now \<and> hour now < 9) then Inr False
      else case select_rows ''morning'' (log_rows logf) (log_stop logf) of
             Inl e \<Rightarrow> Inl e
           | Inr rows \<Rightarrow>
               if rows = [] then Inr True
               else case last_timestamp P rows of
                  Inl e \<Rightarrow> Inl e
                | Inr last_sent \<Rightarrow> Inr (date last_sent \<noteq> date now))"
  by (auto simp: should_send_morning_def log_rows_def log_stop_def
      split: option.splits sum.splits prod.splits)

lemma should_send_morning_last:
  assumes "readable logf"
  shows "should_send_morning P cfg now logf =
     (if TEST_MODE cfg then Inr True
      else if \<not> (8 \<le> hour now \<and> hour now < 9) then Inr False
      else case lastSent ''morning'' logf of
             None \<Rightarrow> Inr True
           | Some e \<Rightarrow>
               (case timestamp_error P e of
                  Some err \<Rightarrow> Inl err
                | None \<Rightarrow> Inr (entry_date P e \<noteq> Some (date now))))"
  using assms
  by (auto simp: should_send_morning_log select_rows_log last_timestamp_error lastSent_def
      entry_date_def timestamp_error_def entry_datetime_def
      split: option.splits cell.splits sum.splits)

subsection \<open>The throttle\<close>

lemma gate_2a_classify:
  "kind = ''container'' \<or> kind = ''litter'' \<Longrightarrow>
   gate_2a level kind =
     (if classify level kind = NoSeverity then Return False
      else Continue (Some (windowFor (classify level kind))))"
  by (auto simp: gate_2a_def classify_def)

lemma last_sent_aware_fault:
  "last_sent_aware P kind logf \<Longrightarrow> lastSent kind logf = Some e \<Longrightarrow>
   timestamp_fault P e = None"
  by (auto simp: last_sent_aware_def timestamp_fault_def timestamp_error_def
      entry_instant_def entry_datetime_def split: option.splits cell.splits sum.splits)

text \<open>
  C1 (as the code has it). With TEST_MODE off, for a kind in container, litter:
  \<open>should_send\<close> returns False when the level has no severity, and it returns
  False when the hour of \<open>now\<close> is outside [8, 23). On a readable log whose last
  entry sent for the kind has a timestamp that is read as an instant, it returns True
  exactly when the hour of \<open>now\<close> is in [8, 23), the level has a severity, and either
  no entry was sent for the kind or \<open>now\<close> minus the timestamp of the last such
  entry is at least the window of the severity (one hour for Urgent, four hours for
  Advisory).
\<close>

theorem should_send_throttle:
  assumes kind: "kind = ''container'' \<or> kind = ''litter''"
    and normal: "\<not> TEST_MODE cfg"
  shows "(classify level kind = NoSeverity \<longrightarrow>
            should_send P cfg now logf level kind = Inr False)
       \<and> (\<not> (8 \<le> hour now \<and> hour now < 23) \<longrightarrow>
            should_send P cfg now logf level kind = Inr False)
       \<and> (readable logf \<and> last_sent_aware P kind logf \<longrightarrow>
            should_send P cfg now logf level kind
              = Inr (8 \<le> hour now \<and> hour now < 23 \<and> shouldSend P level kind now logf))"
proof (intro conjI impI)
  assume "classify level kind = NoSeverity"
  then show "should_send P cfg now logf level kind = Inr False"
    using kind by (simp add: should_send_log gate_2a_classify)
next
  assume "\<not> (8 \<le> hour now \<and> hour now < 23)"
  then show "should_send P cfg now logf level kind = Inr False"
    by (simp add: should_send_def)
next
  assume a: "readable logf \<and> last_sent_aware P kind logf"
  show "should_send P cfg now logf level kind
          = Inr (8 \<le> hour now \<and> hour now < 23 \<and> shouldSend P level kind now logf)"
  proof (cases "lastSent kind logf")
    case None
    then show ?thesis
      using a kind by (auto simp: should_send_last gate_2a_classify shouldSend_def)
  next
    case (Some e)
    then have f: "timestamp_fault P e = None"
      using a last_sent_aware_fault by blast
    obtain t where t: "entry_instant P e = Some t"
      using a Some by (auto simp: last_sent_aware_def)
    show ?thesis
      using a kind Some f t
      by (auto simp: should_send_last gate_2a_classify shouldSend_def)
  qed
qed

lemma three_row_log_readable: "readable (Some three_row_log)"
  by code_simp

lemma three_row_log_aware:
  "last_sent_aware fromisoformat_written ''container'' (Some three_row_log)"
  by code_simp

lemma three_row_log_urgent:
  "shouldSend fromisoformat_written 95 ''container'' noon (Some three_row_log)"
  by code_simp

lemma three_row_log_advisory:
  "\<not> shouldSend fromisoformat_written 75 ''container'' noon (Some three_row_log)"
  by code_simp

lemma classify_50: "classify 50 ''container'' = NoSeverity"
  by (simp add: classify_def BOXcutoff1_def BOXcutoff2_def)

theorem should_send_throttle_witness:
  "readable (Some three_row_log)
   \<and> last_sent_aware fromisoformat_written ''container'' (Some three_row_log)
   \<and> should_send fromisoformat_written \<lparr>TEST_MODE = False\<rparr> noon (Some three_row_log) 95
        ''container'' = Inr True
   \<and> should_send fromisoformat_written \<lparr>TEST_MODE = False\<rparr> noon (Some three_row_log) 75
        ''container'' = Inr False
   \<and> should_send fromisoformat_written \<lparr>TEST_MODE = False\<rparr> noon (Some three_row_log) 50
        ''container'' = Inr False
   \<and> should_send fromisoformat_written \<lparr>TEST_MODE = False\<rparr> night (Some three_row_log) 95
        ''container'' = Inr False"
  using three_row_log_readable three_row_log_aware three_row_log_urgent
    three_row_log_advisory classify_50
    should_send_throttle [where kind = "''container''" and cfg = "\<lparr>TEST_MODE = False\<rparr>"
      and P = fromisoformat_written and now = noon and logf = "Some three_row_log"
      and level = 95]
    should_send_throttle [where kind = "''container''" and cfg = "\<lparr>TEST_MODE = False\<rparr>"
      and P = fromisoformat_written and now = noon and logf = "Some three_row_log"
      and level = 75]
    should_send_throttle [where kind = "''container''" and cfg = "\<lparr>TEST_MODE = False\<rparr>"
      and P = fromisoformat_written and now = noon and logf = "Some three_row_log"
      and level = 50]
    should_send_throttle [where kind = "''container''" and cfg = "\<lparr>TEST_MODE = False\<rparr>"
      and P = fromisoformat_written and now = night and logf = "Some three_row_log"
      and level = 95]
  by (simp add: noon_def night_def)

text \<open>
  The claim without the hours: at 03:00, with TEST_MODE off, an urgent level and no
  log, no entry was sent for the kind, and \<open>should_send\<close> returns False.
\<close>

theorem should_send_quiet_hours_counterexample:
  "classify 95 ''container'' = Urgent
   \<and> lastSent ''container'' None = None
   \<and> shouldSend fromisoformat_written 95 ''container'' night None
   \<and> should_send fromisoformat_written \<lparr>TEST_MODE = False\<rparr> night None 95 ''container''
       = Inr False"
  by (simp add: should_send_def night_def shouldSend_def classify_def BOXcutoff1_def
      lastSent_def sent_rows_def log_rows_def)

subsection \<open>A type that is neither container nor litter\<close>

text \<open>
  C10 (as the code has it). With TEST_MODE off, for a \<open>msg_type\<close> other than
  container and litter and an hour in [8, 23), \<open>should_send\<close> leaves \<open>window\<close>
  unbound. It returns True when the log is absent. On a readable log it returns True
  when no entry was sent for the type; when there is one, the timestamp of the last one
  is read and subtracted from \<open>now\<close> before \<open>window\<close> is used: the exception of
  that is raised if there is one (what \<open>datetime.fromisoformat\<close> raises on a string
  it rejects, TypeError for a timestamp without offset), and UnboundLocalError
  otherwise.
\<close>

theorem should_send_other_type:
  assumes "kind \<noteq> ''container''" and "kind \<noteq> ''litter''"
    and "8 \<le> hour now" and "hour now < 23"
    and "\<not> TEST_MODE cfg"
  shows "gate_2a level kind = Continue None
       \<and> should_send P cfg now None level kind = Inr True
       \<and> (readable logf \<longrightarrow>
            should_send P cfg now logf level kind =
              (case lastSent kind logf of
                 None \<Rightarrow> Inr True
               | Some e \<Rightarrow>
                   (case timestamp_fault P e of
                      None \<Rightarrow> Inl UnboundLocalError
                    | Some err \<Rightarrow> Inl err)))"
proof (intro conjI impI)
  show g: "gate_2a level kind = Continue None"
    using assms by (simp add: gate_2a_def)
  show "should_send P cfg now None level kind = Inr True"
    using assms g by (simp add: should_send_def)
  assume "readable logf"
  then show "should_send P cfg now logf level kind =
      (case lastSent kind logf of
         None \<Rightarrow> Inr True
       | Some e \<Rightarrow>
           (case timestamp_fault P e of
              None \<Rightarrow> Inl UnboundLocalError
            | Some err \<Rightarrow> Inl err))"
    using assms g by (simp add: should_send_last split: option.splits)
qed

lemma digest_log_readable: "readable (Some digest_log)"
  by code_simp

lemma digest_log_last_fault:
  "(case lastSent ''morning'' (Some digest_log) of
      None \<Rightarrow> Inr True
    | Some e \<Rightarrow>
        (case timestamp_fault fromisoformat_written e of
           None \<Rightarrow> Inl UnboundLocalError
         | Some err \<Rightarrow> Inl err)) = Inl UnboundLocalError"
  by code_simp

lemma three_row_log_no_morning: "lastSent ''morning'' (Some three_row_log) = None"
  by code_simp

theorem should_send_other_type_witness:
  "readable (Some digest_log) \<and> readable (Some three_row_log)
   \<and> should_send fromisoformat_written \<lparr>TEST_MODE = False\<rparr> noon (Some digest_log) 40
        ''morning'' = Inl UnboundLocalError
   \<and> should_send fromisoformat_written \<lparr>TEST_MODE = False\<rparr> noon (Some three_row_log) 40
        ''morning'' = Inr True
   \<and> should_send fromisoformat_written \<lparr>TEST_MODE = False\<rparr> noon None 40 ''morning''
        = Inr True"
  using digest_log_readable three_row_log_readable digest_log_last_fault
    three_row_log_no_morning
    should_send_other_type [where kind = "''morning''" and now = noon and level = 40
      and logf = "Some digest_log" and cfg = "\<lparr>TEST_MODE = False\<rparr>"
      and P = fromisoformat_written]
    should_send_other_type [where kind = "''morning''" and now = noon and level = 40
      and logf = "Some three_row_log" and cfg = "\<lparr>TEST_MODE = False\<rparr>"
      and P = fromisoformat_written]
  by (simp add: noon_def)

text \<open>
  A row sent for the type exists and UnboundLocalError is not raised: the timestamp of
  the row has no offset, and subtracting it from \<open>now\<close> raises TypeError.
\<close>

theorem should_send_other_type_counterexample:
  "sent_rows ''morning'' (Some naive_digest_log) \<noteq> []
   \<and> should_send fromisoformat_written \<lparr>TEST_MODE = False\<rparr> noon (Some naive_digest_log) 40
        ''morning'' = Inl TypeError"
  by code_simp

subsection \<open>Malformed rows\<close>

lemma timestamp_error_fault:
  "timestamp_error P e = Some err \<Longrightarrow> timestamp_fault P e = Some err"
  by (simp add: timestamp_fault_def)

text \<open>
  C3 (as the code has it). Neither function skips a malformed row. With TEST_MODE off
  and on readable logs, the result depends on the log only through the last entry sent
  for the requested type: the timestamps of all other rows are never read, so a
  malformed one among them changes nothing. When reading the timestamp of that last
  entry raises an exception (ValueError of \<open>datetime.fromisoformat\<close> for a string
  that is no timestamp), the exception reaches the caller: for \<open>should_send\<close> when
  the hour is in [8, 23) and the level has a window, for \<open>should_send_morning\<close>
  when the hour is in [8, 9).
\<close>

theorem last_sent_row_decides:
  assumes "readable logf" and "\<not> TEST_MODE cfg"
  shows "(readable logf' \<and> lastSent kind logf' = lastSent kind logf \<longrightarrow>
            should_send P cfg now logf' level kind = should_send P cfg now logf level kind)
       \<and> (readable logf' \<and> lastSent ''morning'' logf' = lastSent ''morning'' logf \<longrightarrow>
            should_send_morning P cfg now logf' = should_send_morning P cfg now logf)
       \<and> (lastSent kind logf = Some e \<and> timestamp_error P e = Some err \<and> 8 \<le> hour now
            \<and> hour now < 23 \<and> gate_2a level kind = Continue window \<longrightarrow>
            should_send P cfg now logf level kind = Inl err)
       \<and> (lastSent ''morning'' logf = Some e \<and> timestamp_error P e = Some err
            \<and> 8 \<le> hour now \<and> hour now < 9 \<longrightarrow>
            should_send_morning P cfg now logf = Inl err)"
  using assms
  by (auto simp: should_send_last should_send_morning_last timestamp_error_fault
      split: gate.splits)

lemma malformed_middle_readable: "readable (Some malformed_middle_log)"
  by code_simp

lemma wellformed_rows_readable: "readable (Some wellformed_rows_log)"
  by code_simp

lemma malformed_readable: "readable (Some malformed_log)"
  by code_simp

lemma malformed_middle_last:
  "lastSent ''container'' (Some malformed_middle_log)
     = lastSent ''container'' (Some wellformed_rows_log)"
  by code_simp

lemma malformed_last: "lastSent ''container'' (Some malformed_log) = Some malformed_row"
  by code_simp

lemma malformed_row_timestamp:
  "timestamp_error fromisoformat_written malformed_row = Some ValueError"
  by code_simp

lemma wellformed_rows_decision:
  "should_send fromisoformat_written \<lparr>TEST_MODE = False\<rparr> noon (Some wellformed_rows_log) 95
     ''container'' = Inr False"
  by code_simp

lemma gate_2a_95: "gate_2a 95 ''container'' = Continue (Some (hours 1))"
  by (simp add: gate_2a_def BOXcutoff1_def)

theorem last_sent_row_decides_witness:
  "readable (Some malformed_middle_log) \<and> readable (Some wellformed_rows_log)
   \<and> lastSent ''container'' (Some malformed_middle_log)
       = lastSent ''container'' (Some wellformed_rows_log)
   \<and> should_send fromisoformat_written \<lparr>TEST_MODE = False\<rparr> noon
        (Some malformed_middle_log) 95 ''container'' = Inr False
   \<and> readable (Some malformed_log)
   \<and> lastSent ''container'' (Some malformed_log) = Some malformed_row
   \<and> timestamp_error fromisoformat_written malformed_row = Some ValueError
   \<and> should_send fromisoformat_written \<lparr>TEST_MODE = False\<rparr> noon (Some malformed_log) 95
        ''container'' = Inl ValueError"
  using malformed_middle_readable wellformed_rows_readable malformed_readable
    malformed_middle_last malformed_last malformed_row_timestamp wellformed_rows_decision
    gate_2a_95
    last_sent_row_decides [OF wellformed_rows_readable,
      where logf' = "Some malformed_middle_log" and kind = "''container''"
        and cfg = "\<lparr>TEST_MODE = False\<rparr>" and now = noon and level = 95
        and P = fromisoformat_written]
    last_sent_row_decides [OF malformed_readable,
      where kind = "''container''" and e = malformed_row and err = ValueError
        and cfg = "\<lparr>TEST_MODE = False\<rparr>" and now = noon and level = 95
        and window = "Some (hours 1)" and P = fromisoformat_written]
  by (simp add: noon_def)

text \<open>
  The decision over the well-formed rows of \<open>malformed_log\<close> is False (the last
  alert is half an hour old); with the malformed row at the end, ValueError is raised.
\<close>

theorem should_send_malformed_counterexample:
  "should_send fromisoformat_written \<lparr>TEST_MODE = False\<rparr> noon (Some malformed_log) 95
     ''container'' = Inl ValueError
   \<and> should_send fromisoformat_written \<lparr>TEST_MODE = False\<rparr> noon (Some wellformed_rows_log)
     95 ''container'' = Inr False"
  by code_simp

subsection \<open>The morning digest\<close>


















subsection \<open>Failures of the compaction\<close>



















subsection \<open>Header repair\<close>

lemma readline_strip_header:
  "strip (readline (join_commas LOG_FIELDNAMES @ [LF] @ content)) = join_commas LOG_FIELDNAMES"
  by (simp add: LOG_FIELDNAMES_def LF_def CR_def strip_def is_space_def)

text \<open>
  What \<open>_ensure_log_header\<close> does, for every content of the file: nothing when the
  first line, stripped of the white space at its ends, is the header of LOG_FIELDNAMES;
  otherwise the file becomes the header line followed by its unchanged content. Applying
  the function twice is the same as applying it once.
\<close>

lemma ensure_log_header_stripped:
  "ensure_log_header None = None
   \<and> (strip (readline content) \<noteq> join_commas LOG_FIELDNAMES \<longrightarrow>
        ensure_log_header (Some content) = Some (''timestamp,type,level,sent'' @ [LF] @ content))
   \<and> (strip (readline content) = join_commas LOG_FIELDNAMES \<longrightarrow>
        ensure_log_header (Some content) = Some content)
   \<and> ensure_log_header (ensure_log_header logf) = ensure_log_header logf"
  using readline_strip_header
  by (cases logf) (auto simp: ensure_log_header_def Let_def LOG_FIELDNAMES_def)

text \<open>
  C7. The function compares the first line after \<open>strip()\<close>, which removes more than
  the line terminator. A log whose header line ends with a space has a first line that
  is not the canonical header, and the function leaves the file as it is, where the
  claim has it rewritten with the header in front. The next \<open>should_send\<close> then
  finds no \<open>sent\<close> column and raises KeyError, which the docstring of the function
  says it prevents.
\<close>

theorem ensure_log_header_padded_header:
  "first_line padded_header_log = Some ''timestamp,type,level,sent ''
   \<and> ''timestamp,type,level,sent '' \<noteq> join_commas LOG_FIELDNAMES
   \<and> ensure_log_header (Some padded_header_log) = Some padded_header_log
   \<and> should_send fromisoformat_written \<lparr>TEST_MODE = False\<rparr> noon
        (ensure_log_header (Some padded_header_log)) 95 ''container'' = Inl KeyError"
  by code_simp

lemma padded_header_log_differs:
  "padded_header_log \<noteq> ''timestamp,type,level,sent'' @ [LF] @ padded_header_log"
  by code_simp

theorem ensure_log_header_padded_header_witness:
  "ensure_log_header (Some padded_header_log)
     \<noteq> Some (''timestamp,type,level,sent'' @ [LF] @ padded_header_log)
   \<and> should_send fromisoformat_written \<lparr>TEST_MODE = False\<rparr> noon
        (ensure_log_header (Some padded_header_log)) 95 ''container'' \<noteq> Inr True"
  using ensure_log_header_padded_header padded_header_log_differs by auto

lemma headerless_repaired:
  "ensure_log_header (Some headerless_log)
     = Some (''timestamp,type,level,sent'' @ [LF] @ headerless_log)"
  by code_simp

end
